theory Spec2Isabelle
  imports Complex_Main "HOL-Library.Word"
begin

unbundle bit_operations_syntax

section \<open>Data model\<close>

text \<open>
  The embedding follows \<^verbatim>\<open>src/broodminder_cli/cli.py\<close> and \<^verbatim>\<open>types.py\<close>.
  Conventions:
  \<^item> a Python \<^verbatim>\<open>bytes\<close> value is a list of 8-bit words; \<^verbatim>\<open>data[i]\<close> is the
    unsigned value of the byte as a Python \<^verbatim>\<open>int\<close> (HOL \<open>int\<close>);
  \<^item> a Python \<^verbatim>\<open>float\<close> is idealised as an exact \<open>real\<close>: every formula below
    keeps the source's operations in the source's order, without rounding;
  \<^item> \<^verbatim>\<open>None\<close> is \<open>None\<close> of an option type, also for fields whose annotation does
    not mention it (\<^verbatim>\<open>name: str\<close> of \<^verbatim>\<open>BroodminderData\<close> receives \<^verbatim>\<open>None\<close>);
  \<^item> a raised exception is \<open>Inl\<close> of the result, a returned value \<open>Inr\<close>.
  Several classes of the source share field names; the selectors of the earlier records
  are written with the record's name in front (\<open>BroodminderDevice.name\<close>).
\<close>

type_synonym byte = "8 word"

text \<open>
  The exceptions of the modelled code: the first three are raised by the source's own
  statements, the last two by \<^verbatim>\<open>json.load\<close>.
\<close>

datatype error = IndexError | AttributeError | TypeError | JSONDecodeError | UnicodeDecodeError

text \<open>The two classes of the scanner library, with the attributes the source reads.\<close>

record BLEDevice =
  address :: string

record AdvertisementData =
  local_name :: "string option"
  rssi :: int
  manufacturer_data :: "(int \<times> byte list) list"

text \<open>
  What \<^verbatim>\<open>json.load\<close> returns: a Python value built from dicts, lists, strings,
  numbers, booleans and \<^verbatim>\<open>None\<close>. A dict is given by its items in order; its keys
  are distinct.
\<close>

datatype json =
    JNull
  | JBool bool
  | JInt int
  | JFloat real
  | JStr string
  | JArr "json list"
  | JObj "(string \<times> json) list"

text \<open>
  A dataclass does not check its arguments against the annotations, so a
  \<^verbatim>\<open>BroodminderDevice\<close> built from the identity file holds whatever values the file
  gives: the same three fields, with JSON values.
\<close>

record LoadedDevice =
  address :: json
  name :: json
  friendly_name :: json

text \<open>\<^verbatim>\<open>class BroodminderDevice\<close> (cli.py, lines 73-77).\<close>

record BroodminderDevice =
  address :: string
  name :: "string option"
  friendly_name :: "string option"

text \<open>
  \<^verbatim>\<open>class BroodminderData\<close> (types.py). \<open>humidity\<close> is annotated \<^verbatim>\<open>float | None\<close>
  but the only value ever stored is the integer \<^verbatim>\<open>data[14]\<close>.
\<close>

record BroodminderData =
  address :: string
  name :: "string option"
  friendly_name :: "string option"
  rssi :: int
  model_number :: int
  model_name :: string
  firmware_version :: string
  temperature_f :: "real option"
  temperature_c :: "real option"
  humidity :: "int option"
  weight_left_lbs :: "real option"
  weight_right_lbs :: "real option"
  total_weight_lbs :: "real option"
  battery :: "int option"
  elapsed_time :: "int option"
  raw_data :: "byte list option"

section \<open>Constants\<close>

definition BROODMINDER_MANUFACTURER_ID :: int where
  "BROODMINDER_MANUFACTURER_ID = 0x028D"

definition MODEL_NAMES :: "(int \<times> string) list" where
  "MODEL_NAMES =
     [(41, ''BroodMinder-T''),
      (42, ''BroodMinder-TH''),
      (43, ''BroodMinder-W''),
      (47, ''BroodMinder-TMWC''),
      (49, ''BroodMinder-XLR''),
      (52, ''BroodMinder-SubHub''),
      (56, ''BroodMinder-WS''),
      (57, ''BroodMinder-WSLR''),
      (58, ''BroodMinder-WSXLR'')]"

definition SCALE_FACTOR :: real where
  "SCALE_FACTOR = 2.0"

section \<open>Python primitives used by the decoder\<close>

text \<open>Sequencing of two computations that may raise: the first exception wins.\<close>

definition bind_error :: "error + 'a \<Rightarrow> ('a \<Rightarrow> error + 'b) \<Rightarrow> error + 'b" where
  "bind_error m f = (case m of Inl e \<Rightarrow> Inl e | Inr v \<Rightarrow> f v)"

text \<open>\<^verbatim>\<open>data[i]\<close> for a literal index \<open>i \<ge> 0\<close>: IndexError past the end.\<close>

definition getitem :: "byte list \<Rightarrow> nat \<Rightarrow> error + int" where
  "getitem data i = (if i < length data then Inr (uint (data ! i)) else Inl IndexError)"

text \<open>
  The expression \<^verbatim>\<open>data[i] + (data[i+1] << 8)\<close>, which the source writes out at
  bytes 5, 7, 10, 12 and 19. Python evaluates the left operand first.
\<close>

definition le16 :: "byte list \<Rightarrow> nat \<Rightarrow> error + int" where
  "le16 data i =
     bind_error (getitem data i) (\<lambda>lo.
     bind_error (getitem data (i + 1)) (\<lambda>hi.
     Inr (lo + push_bit 8 hi)))"

text \<open>Truth value of an optional string: \<^verbatim>\<open>None\<close> and \<^verbatim>\<open>""\<close> are false.\<close>

definition truthy :: "string option \<Rightarrow> bool" where
  "truthy s = (case s of None \<Rightarrow> False | Some t \<Rightarrow> t \<noteq> [])"

text \<open>\<^verbatim>\<open>str(n)\<close> of an integer, as the f-strings of the source format it.\<close>

fun str_nat :: "nat \<Rightarrow> string" where
  "str_nat n =
     (if n < 10 then [''0123456789'' ! n]
      else str_nat (n div 10) @ [''0123456789'' ! (n mod 10)])"

definition str_int :: "int \<Rightarrow> string" where
  "str_int i = (if i < 0 then CHR ''-'' # str_nat (nat (- i)) else str_nat (nat i))"

section \<open>The advertisement decoder\<close>

text \<open>
  Lines 161-172: the model name and the constructor call. \<^verbatim>\<open>saved_device\<close> is
  annotated \<^verbatim>\<open>BroodminderDevice | None\<close>; reading an attribute of \<^verbatim>\<open>None\<close> raises
  AttributeError. In \<^verbatim>\<open>adv_data.local_name or saved_device.name\<close> the right operand is
  evaluated only when the left one is false.
\<close>

definition new_result ::
  "BLEDevice \<Rightarrow> BroodminderDevice option \<Rightarrow> AdvertisementData \<Rightarrow> byte list \<Rightarrow>
   int \<Rightarrow> int \<Rightarrow> int \<Rightarrow> error + BroodminderData" where
  "new_result device saved_device adv_data data model version_minor version_major =
     bind_error
       (if truthy (local_name adv_data) then Inr (local_name adv_data)
        else (case saved_device of
                None \<Rightarrow> Inl AttributeError
              | Some sd \<Rightarrow> Inr (BroodminderDevice.name sd))) (\<lambda>name_value.
     bind_error
       (case saved_device of
          None \<Rightarrow> Inl AttributeError
        | Some sd \<Rightarrow> Inr (BroodminderDevice.friendly_name sd)) (\<lambda>friendly_name_value.
     Inr \<lparr>address = BLEDevice.address device,
          name = name_value,
          friendly_name = friendly_name_value,
          rssi = AdvertisementData.rssi adv_data,
          model_number = model,
          model_name =
            (case map_of MODEL_NAMES model of
               Some n \<Rightarrow> n
             | None \<Rightarrow> ''Unknown-'' @ str_int model),
          firmware_version = str_int version_major @ ''.'' @ str_int version_minor,
          temperature_f = None,
          temperature_c = None,
          humidity = None,
          weight_left_lbs = None,
          weight_right_lbs = None,
          total_weight_lbs = None,
          battery = None,
          elapsed_time = None,
          raw_data = Some data\<rparr>))"

text \<open>Line 177: \<^verbatim>\<open>result.battery = data[4] if len(data) > 4 else None\<close>.\<close>

definition parse_battery :: "byte list \<Rightarrow> BroodminderData \<Rightarrow> error + BroodminderData" where
  "parse_battery data result =
     (if length data > 4
      then bind_error (getitem data 4) (\<lambda>b. Inr (result\<lparr>battery := Some b\<rparr>))
      else Inr (result\<lparr>battery := None\<rparr>))"

text \<open>Lines 180-181.\<close>

definition parse_elapsed_time :: "byte list \<Rightarrow> BroodminderData \<Rightarrow> error + BroodminderData" where
  "parse_elapsed_time data result =
     (if length data > 6
      then bind_error (le16 data 5) (\<lambda>t. Inr (result\<lparr>elapsed_time := Some t\<rparr>))
      else Inr result)"

text \<open>Lines 184-194: the legacy formula for models 41, 42, 43; the current one from 47 on.\<close>

definition parse_temperature ::
  "int \<Rightarrow> byte list \<Rightarrow> BroodminderData \<Rightarrow> error + BroodminderData" where
  "parse_temperature model data result =
     (if model \<in> set [41, 42, 43] \<and> length data > 8 then
        bind_error (le16 data 7) (\<lambda>temp_raw.
        Inr (result\<lparr>temperature_f := Some ((real_of_int temp_raw / 65536 * 165 - 40) * 9 / 5 + 32),
                    temperature_c := Some (real_of_int temp_raw / 65536 * 165 - 40)\<rparr>))
      else if model \<ge> 47 \<and> length data > 8 then
        bind_error (le16 data 7) (\<lambda>temp_raw.
        if temp_raw > 5000 then
          Inr (result\<lparr>temperature_c := Some (real_of_int (temp_raw - 5000) / 100),
                      temperature_f := Some (real_of_int (temp_raw - 5000) / 100 * 9 / 5 + 32)\<rparr>)
        else Inr result)
      else Inr result)"

text \<open>Lines 197-198.\<close>

definition parse_humidity ::
  "int \<Rightarrow> byte list \<Rightarrow> BroodminderData \<Rightarrow> error + BroodminderData" where
  "parse_humidity model data result =
     (if model \<in> set [42, 47] \<and> length data > 14
      then bind_error (getitem data 14) (\<lambda>h. Inr (result\<lparr>humidity := Some h\<rparr>))
      else Inr result)"

text \<open>Lines 203-206, 209-212 and 214-219: the two sides of the scale and their total.\<close>

definition parse_weight_left :: "byte list \<Rightarrow> BroodminderData \<Rightarrow> error + BroodminderData" where
  "parse_weight_left data result =
     (if length data > 11 then
        bind_error (le16 data 10) (\<lambda>weight_left_raw.
        if weight_left_raw \<noteq> 0x7FFF
        then Inr (result\<lparr>weight_left_lbs := Some (real_of_int (weight_left_raw - 32767) / 100)\<rparr>)
        else Inr result)
      else Inr result)"

definition parse_weight_right :: "byte list \<Rightarrow> BroodminderData \<Rightarrow> error + BroodminderData" where
  "parse_weight_right data result =
     (if length data > 13 then
        bind_error (le16 data 12) (\<lambda>weight_right_raw.
        if weight_right_raw \<noteq> 0x7FFF
        then Inr (result\<lparr>weight_right_lbs := Some (real_of_int (weight_right_raw - 32767) / 100)\<rparr>)
        else Inr result)
      else Inr result)"

definition derive_total_weight :: "BroodminderData \<Rightarrow> BroodminderData" where
  "derive_total_weight result =
     (case (weight_left_lbs result, weight_right_lbs result) of
        (Some l, Some r) \<Rightarrow> result\<lparr>total_weight_lbs := Some ((l + r) / 2 * SCALE_FACTOR)\<rparr>
      | (Some l, None) \<Rightarrow> result\<lparr>total_weight_lbs := Some (l * SCALE_FACTOR)\<rparr>
      | (None, Some r) \<Rightarrow> result\<lparr>total_weight_lbs := Some (r * SCALE_FACTOR)\<rparr>
      | (None, None) \<Rightarrow> result)"

text \<open>Lines 201-219.\<close>

definition parse_weight ::
  "int \<Rightarrow> byte list \<Rightarrow> BroodminderData \<Rightarrow> error + BroodminderData" where
  "parse_weight model data result =
     (if model \<in> set [43, 47, 49, 56, 57, 58] \<and> length data > 13 then
        bind_error (parse_weight_left data result) (\<lambda>result.
        bind_error (parse_weight_right data result) (\<lambda>result.
        Inr (derive_total_weight result)))
      else Inr result)"

text \<open>
  Lines 222-226: the total-weight bytes. The guard is \<^verbatim>\<open>len(data) > 19\<close> and the
  read is \<^verbatim>\<open>data[19] + (data[20] << 8)\<close>.
\<close>

definition parse_total_weight ::
  "int \<Rightarrow> byte list \<Rightarrow> BroodminderData \<Rightarrow> error + BroodminderData" where
  "parse_total_weight model data result =
     (if model \<in> set [43, 47, 49, 56, 57, 58] \<and> length data > 19 then
        bind_error (le16 data 19) (\<lambda>total_weight_raw.
        if total_weight_raw \<noteq> 0x7FFF
        then Inr (result\<lparr>total_weight_lbs :=
                          Some (real_of_int (total_weight_raw - 32767) / 100 * SCALE_FACTOR)\<rparr>)
        else Inr result)
      else Inr result)"

text \<open>
  \<^verbatim>\<open>_process_broodminder_manufacturer_data\<close> (lines 148-228). The result is
  \<open>Inr None\<close> for \<^verbatim>\<open>return None\<close>, \<open>Inr (Some result)\<close> for a returned reading and
  \<open>Inl e\<close> when the exception \<open>e\<close> leaves the function.
\<close>

definition process_broodminder_manufacturer_data ::
  "BLEDevice \<Rightarrow> BroodminderDevice option \<Rightarrow> AdvertisementData \<Rightarrow> byte list \<Rightarrow>
   error + BroodminderData option" where
  "process_broodminder_manufacturer_data device saved_device adv_data data =
     (if length data < 3 then Inr None
      else
        bind_error (getitem data 0) (\<lambda>model.
        bind_error (getitem data 1) (\<lambda>version_minor.
        bind_error (getitem data 2) (\<lambda>version_major.
        bind_error (new_result device saved_device adv_data data
                      model version_minor version_major) (\<lambda>result.
        if length data \<ge> 15 then
          bind_error (parse_battery data result) (\<lambda>result.
          bind_error (parse_elapsed_time data result) (\<lambda>result.
          bind_error (parse_temperature model data result) (\<lambda>result.
          bind_error (parse_humidity model data result) (\<lambda>result.
          bind_error (parse_weight model data result) (\<lambda>result.
          bind_error (parse_total_weight model data result) (\<lambda>result.
          Inr (Some result)))))))
        else Inr (Some result))))))"

text \<open>
  \<^verbatim>\<open>parse_broodminder_data\<close> (lines 122-145). \<^verbatim>\<open>manufacturer_data\<close> is a dict
  from manufacturer id to payload, given by its items in iteration order.
\<close>

fun find_manufacturer_data ::
  "BLEDevice \<Rightarrow> BroodminderDevice option \<Rightarrow> AdvertisementData \<Rightarrow> (int \<times> byte list) list \<Rightarrow>
   error + BroodminderData option" where
  "find_manufacturer_data device saved_device adv_data [] = Inr None"
| "find_manufacturer_data device saved_device adv_data ((manufacturer_id, data) # rest) =
     (if manufacturer_id = BROODMINDER_MANUFACTURER_ID
      then process_broodminder_manufacturer_data device saved_device adv_data data
      else find_manufacturer_data device saved_device adv_data rest)"

definition parse_broodminder_data ::
  "BLEDevice \<Rightarrow> BroodminderDevice option \<Rightarrow> AdvertisementData \<Rightarrow> error + BroodminderData option" where
  "parse_broodminder_data device saved_device adv_data =
     (if manufacturer_data adv_data = [] then Inr None
      else find_manufacturer_data device saved_device adv_data (manufacturer_data adv_data))"

section \<open>The session aggregator\<close>

text \<open>
  Lines 325-332 of \<^verbatim>\<open>callback\<close>: the first entry of \<^verbatim>\<open>devices_found\<close> with the
  new reading's address is removed (\<^verbatim>\<open>list.remove\<close> deletes the first element equal
  to it), then the new reading is appended.
\<close>

definition ingest :: "BroodminderData list \<Rightarrow> BroodminderData \<Rightarrow> BroodminderData list" where
  "ingest devices_found broodminder_data =
     (case find (\<lambda>existing. address existing = address broodminder_data) devices_found of
        None \<Rightarrow> devices_found
      | Some existing \<Rightarrow> remove1 existing devices_found) @ [broodminder_data]"

text \<open>
  \<^verbatim>\<open>callback\<close> (lines 317-338), without the console output. A dataclass instance is
  always true, so \<^verbatim>\<open>if broodminder_data:\<close> tests for \<^verbatim>\<open>None\<close> only.
\<close>

definition callback ::
  "(string \<rightharpoonup> BroodminderDevice) \<Rightarrow> BroodminderData list \<Rightarrow> BLEDevice \<Rightarrow> AdvertisementData \<Rightarrow>
   error + BroodminderData list" where
  "callback saved_devices devices_found device adv_data =
     (let saved_device =
            (case saved_devices (BLEDevice.address device) of
               None \<Rightarrow> \<lparr>BroodminderDevice.address = BLEDevice.address device,
                         name = local_name adv_data,
                         friendly_name = None\<rparr>
             | Some sd \<Rightarrow> sd)
      in bind_error (parse_broodminder_data device (Some saved_device) adv_data)
           (\<lambda>broodminder_data.
              case broodminder_data of
                None \<Rightarrow> Inr devices_found
              | Some d \<Rightarrow> Inr (ingest devices_found d)))"

text \<open>The list after a sequence of readings has been ingested, starting from the empty list.\<close>

definition ingest_all :: "BroodminderData list \<Rightarrow> BroodminderData list" where
  "ingest_all readings = foldl ingest [] readings"

text \<open>
  The ordering as the specification words it: one entry per distinct address, the most
  recently ingested reading of that address, in the order in which the addresses were
  first sighted. (\<open>remdups\<close> keeps the last occurrence of each element, so the addresses
  in order of first occurrence are \<open>rev (remdups (rev as))\<close>.)
\<close>

definition snapshot_by_first_sighting :: "BroodminderData list \<Rightarrow> BroodminderData list" where
  "snapshot_by_first_sighting readings =
     List.map_filter (\<lambda>a. find (\<lambda>r. address r = a) (rev readings))
       (rev (remdups (rev (map address readings))))"

text \<open>The readings that are the last of their address, in the order of their arrival.\<close>

fun latest_readings :: "BroodminderData list \<Rightarrow> BroodminderData list" where
  "latest_readings [] = []"
| "latest_readings (r # rs) =
     (if address r \<in> set (map address rs) then latest_readings rs else r # latest_readings rs)"

section \<open>The identity store\<close>

text \<open>
  \<^verbatim>\<open>save_devices\<close> (lines 104-119). The store is a dict from address to identity. One
  round of the loop has two steps: an address that is not in the store gets a fresh
  identity; then, when the reading's name is not \<^verbatim>\<open>None\<close>, the \<^verbatim>\<open>name\<close> of the
  entry at that address is assigned (the entry exists after the first step, so the
  subscript cannot fail). The function returns the dict it has updated, which is also
  what it writes to the file.
\<close>

definition save_device ::
  "(string \<rightharpoonup> BroodminderDevice) \<Rightarrow> BroodminderData \<Rightarrow> (string \<rightharpoonup> BroodminderDevice)" where
  "save_device saved_devices device =
     (let saved_devices =
            (if saved_devices (address device) = None
             then saved_devices(address device \<mapsto>
                    \<lparr>BroodminderDevice.address = address device,
                     name = None,
                     friendly_name = None\<rparr>)
             else saved_devices)
      in (case name device of
            None \<Rightarrow> saved_devices
          | Some n \<Rightarrow>
              saved_devices(address device :=
                map_option (\<lambda>entry. entry\<lparr>BroodminderDevice.name := Some n\<rparr>)
                  (saved_devices (address device)))))"

definition save_devices ::
  "(string \<rightharpoonup> BroodminderDevice) \<Rightarrow> BroodminderData list \<Rightarrow> (string \<rightharpoonup> BroodminderDevice)" where
  "save_devices saved_devices found_devices = foldl save_device saved_devices found_devices"

text \<open>
  The name the store holds for an address after \<^verbatim>\<open>save_devices\<close>, computed from the
  readings alone: the name of the last reading of that address whose name is not
  \<^verbatim>\<open>None\<close>, if there is one.
\<close>

definition last_name :: "string \<Rightarrow> BroodminderData list \<Rightarrow> string option" where
  "last_name a found_devices =
     (case filter (\<lambda>d. address d = a \<and> name d \<noteq> None) found_devices of
        [] \<Rightarrow> None
      | ds \<Rightarrow> name (last ds))"

text \<open>
  \<^verbatim>\<open>BroodminderDevice(**device)\<close>: \<^verbatim>\<open>device\<close> must be a dict, its keys must be
  field names, and the two fields without a default must be given; each failure is a
  TypeError.
\<close>

definition BroodminderDevice_init :: "json \<Rightarrow> error + LoadedDevice" where
  "BroodminderDevice_init device =
     (case device of
        JObj kwargs \<Rightarrow>
          if list_ex (\<lambda>k. k \<notin> set [''address'', ''name'', ''friendly_name'']) (map fst kwargs)
          then Inl TypeError
          else (case (map_of kwargs ''address'', map_of kwargs ''name'') of
                  (Some a, Some n) \<Rightarrow>
                    Inr \<lparr>LoadedDevice.address = a,
                         name = n,
                         friendly_name =
                           (case map_of kwargs ''friendly_name'' of None \<Rightarrow> JNull | Some f \<Rightarrow> f)\<rparr>
                | _ \<Rightarrow> Inl TypeError)
      | _ \<Rightarrow> Inl TypeError)"

text \<open>\<^verbatim>\<open>data.items()\<close>: only a dict has the method.\<close>

definition items :: "json \<Rightarrow> error + (string \<times> json) list" where
  "items data = (case data of JObj kvs \<Rightarrow> Inr kvs | _ \<Rightarrow> Inl AttributeError)"

text \<open>The dict comprehension of line 96, item by item.\<close>

fun load_items :: "(string \<times> json) list \<Rightarrow> error + (string \<times> LoadedDevice) list" where
  "load_items [] = Inr []"
| "load_items ((addr, device) # rest) =
     bind_error (BroodminderDevice_init device) (\<lambda>d.
     bind_error (load_items rest) (\<lambda>loaded.
     Inr ((addr, d) # loaded)))"

text \<open>
  \<^verbatim>\<open>load_saved_devices\<close> (lines 90-100). The file is \<open>None\<close> when it does not exist;
  otherwise it is given by what \<^verbatim>\<open>json.load\<close> does on it: the exception it raises or
  the value it returns. The \<^verbatim>\<open>except\<close> clause names \<^verbatim>\<open>json.JSONDecodeError\<close> and
  \<^verbatim>\<open>TypeError\<close>; any other exception leaves the function.
\<close>

definition load_saved_devices ::
  "(error + json) option \<Rightarrow> error + (string \<times> LoadedDevice) list" where
  "load_saved_devices file =
     (case file of
        None \<Rightarrow> Inr []
      | Some loaded \<Rightarrow>
          (case bind_error loaded (\<lambda>data. bind_error (items data) load_items) of
             Inl e \<Rightarrow> if e \<in> set [JSONDecodeError, TypeError] then Inr [] else Inl e
           | Inr devices \<Rightarrow> Inr devices))"

section \<open>Sample data\<close>

text \<open>
  A reading of a BroodMinder-T with a three-byte payload, for the examples: only the
  address, the name and the signal strength vary.
\<close>

definition example_reading :: "string \<Rightarrow> string option \<Rightarrow> int \<Rightarrow> BroodminderData" where
  "example_reading a n s =
     \<lparr>address = a, name = n, friendly_name = None, rssi = s,
      model_number = 41, model_name = ''BroodMinder-T'', firmware_version = ''1.3'',
      temperature_f = None, temperature_c = None, humidity = None,
      weight_left_lbs = None, weight_right_lbs = None, total_weight_lbs = None,
      battery = None, elapsed_time = None, raw_data = Some [41, 3, 1]\<rparr>"

section \<open>Properties of the decoder's steps\<close>

text \<open>
  Reads inside the payload succeed; the 16-bit reads are little-endian. Each step of the
  decoder is then described on its own: which fields it leaves alone, and what it stores.
\<close>

lemma bind_error_Inr: "bind_error (Inr v) f = f v"
  by (simp add: bind_error_def)

lemma bind_error_Inl: "bind_error (Inl e) f = Inl e"
  by (simp add: bind_error_def)

lemma getitem_in_range: "i < length data \<Longrightarrow> getitem data i = Inr (uint (data ! i))"
  by (simp add: getitem_def)

lemma le16_in_range:
  "Suc i < length data \<Longrightarrow> le16 data i = Inr (uint (data ! i) + 256 * uint (data ! Suc i))"
  by (simp add: le16_def getitem_def bind_error_def push_bit_eq_mult)

lemma le16_second_byte_missing: "length data = Suc i \<Longrightarrow> le16 data i = Inl IndexError"
  by (simp add: le16_def getitem_def bind_error_def)

lemma new_result_Some:
  "\<exists>r. new_result device (Some sd) adv_data data model version_minor version_major = Inr r \<and>
     name r = (if truthy (local_name adv_data) then local_name adv_data else BroodminderDevice.name sd) \<and>
     temperature_f r = None \<and> temperature_c r = None \<and>
     weight_left_lbs r = None \<and> weight_right_lbs r = None \<and> total_weight_lbs r = None"
  by (simp add: new_result_def bind_error_def)

lemma new_result_no_identity:
  "new_result device None adv_data data model version_minor version_major = Inl AttributeError"
  by (simp add: new_result_def bind_error_def)

lemma parse_battery_frame:
  "\<exists>r'. parse_battery data r = Inr r' \<and> name r' = name r \<and>
     temperature_f r' = temperature_f r \<and> temperature_c r' = temperature_c r \<and>
     weight_left_lbs r' = weight_left_lbs r \<and> weight_right_lbs r' = weight_right_lbs r \<and>
     total_weight_lbs r' = total_weight_lbs r"
  by (simp add: parse_battery_def getitem_def bind_error_def)

lemma parse_elapsed_time_frame:
  "\<exists>r'. parse_elapsed_time data r = Inr r' \<and> name r' = name r \<and>
     temperature_f r' = temperature_f r \<and> temperature_c r' = temperature_c r \<and>
     weight_left_lbs r' = weight_left_lbs r \<and> weight_right_lbs r' = weight_right_lbs r \<and>
     total_weight_lbs r' = total_weight_lbs r"
  by (simp add: parse_elapsed_time_def le16_in_range bind_error_def)

lemma parse_temperature_frame:
  "\<exists>r'. parse_temperature model data r = Inr r' \<and> name r' = name r \<and>
     weight_left_lbs r' = weight_left_lbs r \<and> weight_right_lbs r' = weight_right_lbs r \<and>
     total_weight_lbs r' = total_weight_lbs r"
  by (simp add: parse_temperature_def le16_in_range bind_error_def)

lemma parse_temperature_legacy:
  assumes "model = 41 \<or> model = 42 \<or> model = 43" and "8 < length data"
  shows "parse_temperature model data r =
           Inr (r\<lparr>temperature_f :=
                    Some ((real_of_int (uint (data ! 7) + 256 * uint (data ! 8)) / 65536 * 165 - 40) * 9 / 5 + 32),
                  temperature_c :=
                    Some (real_of_int (uint (data ! 7) + 256 * uint (data ! 8)) / 65536 * 165 - 40)\<rparr>)"
  using assms by (auto simp add: parse_temperature_def le16_in_range bind_error_def)

lemma parse_temperature_current:
  assumes "47 \<le> model" and "8 < length data"
  shows "parse_temperature model data r =
           Inr (if uint (data ! 7) + 256 * uint (data ! 8) > 5000
                then r\<lparr>temperature_c := Some (real_of_int (uint (data ! 7) + 256 * uint (data ! 8) - 5000) / 100),
                       temperature_f := Some (real_of_int (uint (data ! 7) + 256 * uint (data ! 8) - 5000) / 100 * 9 / 5 + 32)\<rparr>
                else r)"
  using assms by (auto simp add: parse_temperature_def le16_in_range bind_error_def)

lemma parse_temperature_paired:
  assumes "parse_temperature model data r = Inr r'"
    and "temperature_c r = None" and "temperature_f r = None"
  shows "temperature_f r' = map_option (\<lambda>c. c * 9 / 5 + 32) (temperature_c r')"
  using assms by (auto simp add: parse_temperature_def le16_in_range bind_error_def split: if_splits)

lemma parse_humidity_frame:
  "\<exists>r'. parse_humidity model data r = Inr r' \<and> name r' = name r \<and>
     temperature_f r' = temperature_f r \<and> temperature_c r' = temperature_c r \<and>
     weight_left_lbs r' = weight_left_lbs r \<and> weight_right_lbs r' = weight_right_lbs r \<and>
     total_weight_lbs r' = total_weight_lbs r"
  by (simp add: parse_humidity_def getitem_def bind_error_def)

lemma parse_weight_frame:
  "\<exists>r'. parse_weight model data r = Inr r' \<and> name r' = name r \<and>
     temperature_f r' = temperature_f r \<and> temperature_c r' = temperature_c r"
  by (simp add: parse_weight_def parse_weight_left_def parse_weight_right_def derive_total_weight_def
      le16_in_range bind_error_def split: option.splits)

lemma parse_total_weight_frame:
  assumes "parse_total_weight model data r = Inr r'"
  shows "name r' = name r \<and> temperature_f r' = temperature_f r \<and> temperature_c r' = temperature_c r \<and>
     weight_left_lbs r' = weight_left_lbs r \<and> weight_right_lbs r' = weight_right_lbs r"
  using assms by (auto simp add: parse_total_weight_def bind_error_def split: if_splits sum.splits)

lemma parse_total_weight_succeeds:
  assumes "\<not> (model \<in> set [43, 47, 49, 56, 57, 58] \<and> length data = 20)"
  shows "\<exists>r'. parse_total_weight model data r = Inr r'"
proof (cases "model \<in> set [43, 47, 49, 56, 57, 58] \<and> length data > 19")
  case True
  with assms have "Suc 19 < length data" by auto
  then show ?thesis using True
    by (simp add: parse_total_weight_def le16_in_range bind_error_def)
next
  case False
  then show ?thesis by (auto simp add: parse_total_weight_def)
qed

lemma parse_total_weight_raises:
  assumes "model \<in> set [43, 47, 49, 56, 57, 58]" and "length data = 20"
  shows "parse_total_weight model data r = Inl IndexError"
  using assms by (simp add: parse_total_weight_def le16_second_byte_missing bind_error_def)


lemma parse_total_weight_present:
  assumes "model \<in> set [43, 47, 49, 56, 57, 58]" and "20 < length data"
  shows "parse_total_weight model data r =
           Inr (if uint (data ! 19) + 256 * uint (data ! 20) \<noteq> 0x7FFF
                then r\<lparr>total_weight_lbs :=
                         Some (real_of_int (uint (data ! 19) + 256 * uint (data ! 20) - 32767) / 100 * SCALE_FACTOR)\<rparr>
                else r)"
proof -
  from assms(2) have "le16 data 19 = Inr (uint (data ! 19) + 256 * uint (data ! Suc 19))"
    by (intro le16_in_range) simp
  with assms show ?thesis
    by (simp add: parse_total_weight_def bind_error_def)
qed

lemma parse_total_weight_skipped:
  assumes "model \<notin> set [43, 47, 49, 56, 57, 58] \<or> length data \<le> 19"
  shows "parse_total_weight model data r = Inr r"
  using assms by (auto simp add: parse_total_weight_def)

lemma parse_weight_right_only:
  assumes "model \<in> set [43, 47, 49, 56, 57, 58]" and "13 < length data"
    and "uint (data ! 10) + 256 * uint (data ! 11) = 0x7FFF"
    and "uint (data ! 12) + 256 * uint (data ! 13) \<noteq> 0x7FFF"
    and "weight_left_lbs r = None"
  shows "parse_weight model data r =
           Inr (r\<lparr>weight_right_lbs :=
                    Some (real_of_int (uint (data ! 12) + 256 * uint (data ! 13) - 32767) / 100),
                  total_weight_lbs :=
                    Some (real_of_int (uint (data ! 12) + 256 * uint (data ! 13) - 32767) / 100 * SCALE_FACTOR)\<rparr>)"
proof -
  from assms(2) have l: "le16 data 10 = Inr (uint (data ! 10) + 256 * uint (data ! Suc 10))"
    by (intro le16_in_range) simp
  from assms(2) have r: "le16 data 12 = Inr (uint (data ! 12) + 256 * uint (data ! Suc 12))"
    by (intro le16_in_range) simp
  from assms l r show ?thesis
    by (simp add: parse_weight_def parse_weight_left_def parse_weight_right_def
        derive_total_weight_def bind_error_def)
qed

lemma getitem_header:
  assumes "3 \<le> length data"
  shows "getitem data 0 = Inr (uint (data ! 0))"
    and "getitem data (Suc 0) = Inr (uint (data ! Suc 0))"
    and "getitem data 2 = Inr (uint (data ! 2))"
  using assms by (auto simp add: getitem_def)

lemma process_short:
  "length data < 3 \<Longrightarrow> process_broodminder_manufacturer_data device saved_device adv_data data = Inr None"
  by (simp add: process_broodminder_manufacturer_data_def)

lemma process_no_identity:
  "3 \<le> length data \<Longrightarrow>
   process_broodminder_manufacturer_data device None adv_data data = Inl AttributeError"
  by (simp add: process_broodminder_manufacturer_data_def getitem_header bind_error_def
      new_result_no_identity)

lemma process_medium:
  assumes "3 \<le> length data" and "length data < 15"
  shows "\<exists>r. process_broodminder_manufacturer_data device (Some sd) adv_data data = Inr (Some r) \<and>
     name r = (if truthy (local_name adv_data) then local_name adv_data else BroodminderDevice.name sd) \<and>
     temperature_f r = None \<and> temperature_c r = None \<and>
     weight_left_lbs r = None \<and> weight_right_lbs r = None \<and> total_weight_lbs r = None"
proof -
  obtain r0 where r0:
    "new_result device (Some sd) adv_data data (uint (data ! 0)) (uint (data ! 1)) (uint (data ! 2)) = Inr r0"
    "name r0 = (if truthy (local_name adv_data) then local_name adv_data else BroodminderDevice.name sd)"
    "temperature_f r0 = None" "temperature_c r0 = None"
    "weight_left_lbs r0 = None" "weight_right_lbs r0 = None" "total_weight_lbs r0 = None"
    using new_result_Some by blast
  from assms r0(1) have
    "process_broodminder_manufacturer_data device (Some sd) adv_data data = Inr (Some r0)"
    by (simp add: process_broodminder_manufacturer_data_def getitem_header bind_error_def)
  with r0 show ?thesis by blast
qed

lemma process_long:
  assumes "15 \<le> length data"
  shows "\<exists>r2 r3 r4 r5.
     name r2 = (if truthy (local_name adv_data) then local_name adv_data else BroodminderDevice.name sd) \<and>
     temperature_f r2 = None \<and> temperature_c r2 = None \<and>
     weight_left_lbs r2 = None \<and> weight_right_lbs r2 = None \<and> total_weight_lbs r2 = None \<and>
     parse_temperature (uint (data ! 0)) data r2 = Inr r3 \<and>
     parse_humidity (uint (data ! 0)) data r3 = Inr r4 \<and>
     parse_weight (uint (data ! 0)) data r4 = Inr r5 \<and>
     process_broodminder_manufacturer_data device (Some sd) adv_data data =
       bind_error (parse_total_weight (uint (data ! 0)) data r5) (\<lambda>r. Inr (Some r))"
proof -
  obtain r0 where r0:
    "new_result device (Some sd) adv_data data (uint (data ! 0)) (uint (data ! 1)) (uint (data ! 2)) = Inr r0"
    "name r0 = (if truthy (local_name adv_data) then local_name adv_data else BroodminderDevice.name sd)"
    "temperature_f r0 = None" "temperature_c r0 = None"
    "weight_left_lbs r0 = None" "weight_right_lbs r0 = None" "total_weight_lbs r0 = None"
    using new_result_Some by blast
  obtain r1 where r1: "parse_battery data r0 = Inr r1" "name r1 = name r0"
    "temperature_f r1 = temperature_f r0" "temperature_c r1 = temperature_c r0"
    "weight_left_lbs r1 = weight_left_lbs r0" "weight_right_lbs r1 = weight_right_lbs r0"
    "total_weight_lbs r1 = total_weight_lbs r0"
    using parse_battery_frame by blast
  obtain r2 where r2: "parse_elapsed_time data r1 = Inr r2" "name r2 = name r1"
    "temperature_f r2 = temperature_f r1" "temperature_c r2 = temperature_c r1"
    "weight_left_lbs r2 = weight_left_lbs r1" "weight_right_lbs r2 = weight_right_lbs r1"
    "total_weight_lbs r2 = total_weight_lbs r1"
    using parse_elapsed_time_frame by blast
  obtain r3 where r3: "parse_temperature (uint (data ! 0)) data r2 = Inr r3"
    using parse_temperature_frame by blast
  obtain r4 where r4: "parse_humidity (uint (data ! 0)) data r3 = Inr r4"
    using parse_humidity_frame by blast
  obtain r5 where r5: "parse_weight (uint (data ! 0)) data r4 = Inr r5"
    using parse_weight_frame by blast
  from assms r0(1) r1(1) r2(1) r3 r4 r5 have
    "process_broodminder_manufacturer_data device (Some sd) adv_data data =
       bind_error (parse_total_weight (uint (data ! 0)) data r5) (\<lambda>r. Inr (Some r))"
    by (simp add: process_broodminder_manufacturer_data_def getitem_header bind_error_Inr)
  with r0 r1 r2 r3 r4 r5 show ?thesis by (intro exI) simp
qed

section \<open>Claims about the decoder\<close>

text \<open>
  C1 (the decoder never raises, in particular on scale-capable payloads of length
  exactly 20). The code does raise there: for a scale-capable model the last step is
  entered when \<^verbatim>\<open>len(data) > 19\<close> and reads \<^verbatim>\<open>data[20]\<close>, which a payload of 20 bytes
  does not have. Whatever the other bytes, the device, the stored identity and the
  advertisement are, the decoder leaves with IndexError; and so does \<^verbatim>\<open>callback\<close>
  when the advertisement carries such a payload under the vendor's manufacturer id.
\<close>

theorem decode_raises_at_length_20:
  assumes "uint (data ! 0) \<in> {43, 47, 49, 56, 57, 58}" and "length data = 20"
  shows "process_broodminder_manufacturer_data device (Some sd) adv_data data = Inl IndexError \<and>
         (manufacturer_data adv_data = [(BROODMINDER_MANUFACTURER_ID, data)] \<longrightarrow>
            callback saved_devices devices_found device adv_data = Inl IndexError)"
proof -
  have raises: "process_broodminder_manufacturer_data device (Some sd') adv_data data = Inl IndexError"
    for sd'
  proof -
    from assms(2) have "15 \<le> length data" by simp
    then obtain r5 where
      "process_broodminder_manufacturer_data device (Some sd') adv_data data =
         bind_error (parse_total_weight (uint (data ! 0)) data r5) (\<lambda>r. Inr (Some r))"
      using process_long by blast
    moreover from assms have "parse_total_weight (uint (data ! 0)) data r5 = Inl IndexError"
      by (intro parse_total_weight_raises) simp_all
    ultimately show ?thesis by (simp add: bind_error_Inl)
  qed
  then have "manufacturer_data adv_data = [(BROODMINDER_MANUFACTURER_ID, data)] \<longrightarrow>
      callback saved_devices devices_found device adv_data = Inl IndexError"
    by (simp add: callback_def parse_broodminder_data_def Let_def bind_error_Inl)
  with raises show ?thesis by simp
qed

theorem decode_raises_at_length_20_witness:
  "process_broodminder_manufacturer_data
     \<lparr>BLEDevice.address = ''AA:BB''\<rparr>
     (Some \<lparr>BroodminderDevice.address = ''AA:BB'', name = Some ''Hive1'', friendly_name = None\<rparr>)
     \<lparr>local_name = None, rssi = - 60,
      manufacturer_data =
        [(653, [43, 3, 1, 0, 90, 10, 0, 0, 0, 0, 255, 127, 16, 128, 55, 0, 0, 0, 0, 0])]\<rparr>
     [43, 3, 1, 0, 90, 10, 0, 0, 0, 0, 255, 127, 16, 128, 55, 0, 0, 0, 0, 0] = Inl IndexError \<and>
   callback Map.empty []
     \<lparr>BLEDevice.address = ''AA:BB''\<rparr>
     \<lparr>local_name = None, rssi = - 60,
      manufacturer_data =
        [(653, [43, 3, 1, 0, 90, 10, 0, 0, 0, 0, 255, 127, 16, 128, 55, 0, 0, 0, 0, 0])]\<rparr> =
   Inl IndexError"
  using decode_raises_at_length_20
    [of "[43, 3, 1, 0, 90, 10, 0, 0, 0, 0, 255, 127, 16, 128, 55, 0, 0, 0, 0, 0]"
        "\<lparr>BLEDevice.address = ''AA:BB''\<rparr>"
        "\<lparr>BroodminderDevice.address = ''AA:BB'', name = Some ''Hive1'', friendly_name = None\<rparr>"
        "\<lparr>local_name = None, rssi = - 60,
          manufacturer_data =
            [(653, [43, 3, 1, 0, 90, 10, 0, 0, 0, 0, 255, 127, 16, 128, 55, 0, 0, 0, 0, 0])]\<rparr>"
        Map.empty "[]"]
  by (simp add: BROODMINDER_MANUFACTURER_ID_def)

text \<open>
  When the decoder returns a reading. A stored identity is given: \<^verbatim>\<open>callback\<close>, the
  only caller, always passes one.
\<close>

lemma decode_succeeds:
  assumes "3 \<le> length data"
    and "\<not> (uint (data ! 0) \<in> {43, 47, 49, 56, 57, 58} \<and> length data = 20)"
  shows "\<exists>r. process_broodminder_manufacturer_data device (Some sd) adv_data data = Inr (Some r)"
proof (cases "15 \<le> length data")
  case False
  with assms(1) show ?thesis using process_medium [of data device sd adv_data] by auto
next
  case True
  then obtain r5 where p:
    "process_broodminder_manufacturer_data device (Some sd) adv_data data =
       bind_error (parse_total_weight (uint (data ! 0)) data r5) (\<lambda>r. Inr (Some r))"
    using process_long by blast
  from assms(2) obtain r where "parse_total_weight (uint (data ! 0)) data r5 = Inr r"
    using parse_total_weight_succeeds [of "uint (data ! 0)" data r5] by auto
  with p show ?thesis by (simp add: bind_error_Inr)
qed

lemma process_long_fields:
  assumes "15 \<le> length data"
    and "process_broodminder_manufacturer_data device (Some sd) adv_data data = Inr (Some r)"
  shows "\<exists>r2 r3 r5.
     temperature_f r2 = None \<and> temperature_c r2 = None \<and>
     parse_temperature (uint (data ! 0)) data r2 = Inr r3 \<and>
     temperature_c r = temperature_c r3 \<and> temperature_f r = temperature_f r3 \<and>
     (\<exists>r4. weight_left_lbs r4 = None \<and> parse_weight (uint (data ! 0)) data r4 = Inr r5) \<and>
     parse_total_weight (uint (data ! 0)) data r5 = Inr r \<and>
     weight_left_lbs r = weight_left_lbs r5 \<and> weight_right_lbs r = weight_right_lbs r5 \<and>
     name r = (if truthy (local_name adv_data) then local_name adv_data else BroodminderDevice.name sd)"
proof -
  from assms(1) obtain r2 r3 r4 r5 where s:
    "name r2 = (if truthy (local_name adv_data) then local_name adv_data else BroodminderDevice.name sd)"
    "temperature_f r2 = None" "temperature_c r2 = None"
    "weight_left_lbs r2 = None"
    "parse_temperature (uint (data ! 0)) data r2 = Inr r3"
    "parse_humidity (uint (data ! 0)) data r3 = Inr r4"
    "parse_weight (uint (data ! 0)) data r4 = Inr r5"
    "process_broodminder_manufacturer_data device (Some sd) adv_data data =
       bind_error (parse_total_weight (uint (data ! 0)) data r5) (\<lambda>r. Inr (Some r))"
    using process_long [of data adv_data sd device] by blast
  from s(8) assms(2) have r: "parse_total_weight (uint (data ! 0)) data r5 = Inr r"
    by (cases "parse_total_weight (uint (data ! 0)) data r5") (simp_all add: bind_error_def)
  have f3: "name r3 = name r2" "weight_left_lbs r3 = weight_left_lbs r2"
    using parse_temperature_frame [of "uint (data ! 0)" data r2] s(5) by auto
  have f4: "name r4 = name r3" "weight_left_lbs r4 = weight_left_lbs r3"
    "temperature_c r4 = temperature_c r3" "temperature_f r4 = temperature_f r3"
    using parse_humidity_frame [of "uint (data ! 0)" data r3] s(6) by auto
  have f5: "name r5 = name r4"
    "temperature_c r5 = temperature_c r4" "temperature_f r5 = temperature_f r4"
    using parse_weight_frame [of "uint (data ! 0)" data r4] s(7) by auto
  have f6: "name r = name r5"
    "temperature_c r = temperature_c r5" "temperature_f r = temperature_f r5"
    "weight_left_lbs r = weight_left_lbs r5" "weight_right_lbs r = weight_right_lbs r5"
    using parse_total_weight_frame [OF r] by auto
  have "weight_left_lbs r4 = None \<and> parse_weight (uint (data ! 0)) data r4 = Inr r5"
    using f4 f3 s by simp
  then have "\<exists>r4. weight_left_lbs r4 = None \<and> parse_weight (uint (data ! 0)) data r4 = Inr r5" ..
  with s r f3 f4 f5 f6 show ?thesis by (intro exI [of _ r2] exI [of _ r3] exI [of _ r5]) simp
qed

lemmas decoder_defs =
  process_broodminder_manufacturer_data_def getitem_def le16_def bind_error_def new_result_def
  truthy_def parse_battery_def parse_elapsed_time_def parse_temperature_def parse_humidity_def
  parse_weight_def parse_weight_left_def parse_weight_right_def derive_total_weight_def
  parse_total_weight_def MODEL_NAMES_def str_int_def SCALE_FACTOR_def

text \<open>
  C3 (legacy temperature, models 41, 42 and 43). As stated, with a length greater than 8
  as the only length precondition, the claim fails: the whole field block of the decoder
  is inside \<^verbatim>\<open>if len(data) >= 15\<close>, so a payload of 9 to 14 bytes yields a reading
  without temperature. Amended: given an identity, for a payload of at least 3 bytes
  (other than the 20-byte payload of model 43 of C1) the decoder returns a reading; when
  the payload has at least 15 bytes, \<open>temperature_c\<close> is \<open>tempRaw / 65536 * 165 - 40\<close> for the little-endian value
  \<open>tempRaw\<close> of bytes 7-8 and \<open>temperature_f\<close> is \<open>temperature_c * 9 / 5 + 32\<close>; when it
  is shorter, both are absent. With \<open>tempRaw = 0\<close> the temperature is \<open>-40\<close>.
\<close>

theorem legacy_temperature:
  assumes "uint (data ! 0) \<in> {41, 42, 43}"
    and "3 \<le> length data"
    and "\<not> (uint (data ! 0) = 43 \<and> length data = 20)"
  shows "\<exists>r. process_broodminder_manufacturer_data device (Some sd) adv_data data = Inr (Some r) \<and>
     temperature_c r =
       (if 15 \<le> length data
        then Some (real_of_int (uint (data ! 7) + 256 * uint (data ! 8)) / 65536 * 165 - 40)
        else None) \<and>
     temperature_f r =
       (if 15 \<le> length data
        then Some ((real_of_int (uint (data ! 7) + 256 * uint (data ! 8)) / 65536 * 165 - 40) * 9 / 5 + 32)
        else None)"
proof (cases "15 \<le> length data")
  case False
  with assms(2) show ?thesis using process_medium [of data device sd adv_data] by auto
next
  case True
  from assms have "\<not> (uint (data ! 0) \<in> {43, 47, 49, 56, 57, 58} \<and> length data = 20)"
    by auto
  with assms(2) obtain r where
    r: "process_broodminder_manufacturer_data device (Some sd) adv_data data = Inr (Some r)"
    using decode_succeeds by blast
  with True obtain r2 r3 where s:
    "parse_temperature (uint (data ! 0)) data r2 = Inr r3"
    "temperature_c r = temperature_c r3" "temperature_f r = temperature_f r3"
    using process_long_fields by blast
  from assms(1) True have
    "parse_temperature (uint (data ! 0)) data r2 =
       Inr (r2\<lparr>temperature_f :=
                 Some ((real_of_int (uint (data ! 7) + 256 * uint (data ! 8)) / 65536 * 165 - 40) * 9 / 5 + 32),
               temperature_c :=
                 Some (real_of_int (uint (data ! 7) + 256 * uint (data ! 8)) / 65536 * 165 - 40)\<rparr>)"
    by (intro parse_temperature_legacy) auto
  with s True r show ?thesis by auto
qed

theorem legacy_temperature_witness:
  "length ([41, 3, 1, 0, 90, 10, 0, 0, 0, 0, 0, 0, 0, 0, 55] :: byte list) = 15 \<and>
   (\<exists>r. process_broodminder_manufacturer_data
          \<lparr>BLEDevice.address = ''AA:BB''\<rparr>
          (Some \<lparr>BroodminderDevice.address = ''AA:BB'', name = Some ''Hive1'', friendly_name = None\<rparr>)
          \<lparr>local_name = None, rssi = - 60, manufacturer_data = []\<rparr>
          [41, 3, 1, 0, 90, 10, 0, 0, 0, 0, 0, 0, 0, 0, 55] = Inr (Some r) \<and>
        temperature_c r = Some (- 40) \<and> temperature_f r = Some (- 40))"
  using legacy_temperature
    [of "[41, 3, 1, 0, 90, 10, 0, 0, 0, 0, 0, 0, 0, 0, 55]"
        "\<lparr>BLEDevice.address = ''AA:BB''\<rparr>"
        "\<lparr>BroodminderDevice.address = ''AA:BB'', name = Some ''Hive1'', friendly_name = None\<rparr>"
        "\<lparr>local_name = None, rssi = - 60, manufacturer_data = []\<rparr>"]
  by simp

theorem legacy_temperature_counterexample:
  "8 < length ([41, 3, 1, 0, 90, 10, 0, 0, 0] :: byte list) \<and>
   process_broodminder_manufacturer_data
     \<lparr>BLEDevice.address = ''AA:BB''\<rparr>
     (Some \<lparr>BroodminderDevice.address = ''AA:BB'', name = Some ''Hive1'', friendly_name = None\<rparr>)
     \<lparr>local_name = None, rssi = - 60, manufacturer_data = []\<rparr>
     [41, 3, 1, 0, 90, 10, 0, 0, 0] =
   Inr (Some \<lparr>address = ''AA:BB'', name = Some ''Hive1'', friendly_name = None, rssi = - 60,
              model_number = 41, model_name = ''BroodMinder-T'', firmware_version = ''1.3'',
              temperature_f = None, temperature_c = None, humidity = None,
              weight_left_lbs = None, weight_right_lbs = None, total_weight_lbs = None,
              battery = None, elapsed_time = None,
              raw_data = Some [41, 3, 1, 0, 90, 10, 0, 0, 0]\<rparr>)"
  by (simp add: decoder_defs)

text \<open>
  C6 (current temperature, model codes from 47 on: for every payload long enough to carry
  temperature the fields are populated only when \<open>tempRaw > 5000\<close>). As stated the claim
  fails on a payload of 9 to 14 bytes: it carries bytes 7-8, but the decoder reads no
  field of a payload shorter than 15 bytes, so the claim's value \<open>0.01\<close> at
  \<open>tempRaw = 5001\<close> is absent there. Amended: given an identity, for a payload of at
  least 3 bytes (other than the 20-byte payload of a scale-capable model of C1) the
  decoder returns a reading; its temperature fields are populated exactly when the payload has at least 15 bytes and
  \<open>tempRaw > 5000\<close>, as \<open>temperature_c = (tempRaw - 5000) / 100\<close> and
  \<open>temperature_f = temperature_c * 9 / 5 + 32\<close>. At \<open>tempRaw = 5000\<close> both are absent, at
  \<open>tempRaw = 5001\<close> \<open>temperature_c = 0.01\<close>.
\<close>

theorem current_temperature:
  assumes "47 \<le> uint (data ! 0)"
    and "3 \<le> length data"
    and "\<not> (uint (data ! 0) \<in> {47, 49, 56, 57, 58} \<and> length data = 20)"
  shows "\<exists>r. process_broodminder_manufacturer_data device (Some sd) adv_data data = Inr (Some r) \<and>
     temperature_c r =
       (if 15 \<le> length data \<and> 5000 < uint (data ! 7) + 256 * uint (data ! 8)
        then Some (real_of_int (uint (data ! 7) + 256 * uint (data ! 8) - 5000) / 100)
        else None) \<and>
     temperature_f r =
       (if 15 \<le> length data \<and> 5000 < uint (data ! 7) + 256 * uint (data ! 8)
        then Some (real_of_int (uint (data ! 7) + 256 * uint (data ! 8) - 5000) / 100 * 9 / 5 + 32)
        else None)"
proof (cases "15 \<le> length data")
  case False
  with assms(2) show ?thesis using process_medium [of data device sd adv_data] by auto
next
  case True
  from assms have "\<not> (uint (data ! 0) \<in> {43, 47, 49, 56, 57, 58} \<and> length data = 20)"
    by auto
  with assms(2) obtain r where
    r: "process_broodminder_manufacturer_data device (Some sd) adv_data data = Inr (Some r)"
    using decode_succeeds by blast
  with True obtain r2 r3 where s:
    "temperature_f r2 = None" "temperature_c r2 = None"
    "parse_temperature (uint (data ! 0)) data r2 = Inr r3"
    "temperature_c r = temperature_c r3" "temperature_f r = temperature_f r3"
    using process_long_fields by blast
  from assms(1) True have
    "parse_temperature (uint (data ! 0)) data r2 =
           Inr (if uint (data ! 7) + 256 * uint (data ! 8) > 5000
                then r2\<lparr>temperature_c := Some (real_of_int (uint (data ! 7) + 256 * uint (data ! 8) - 5000) / 100),
                       temperature_f := Some (real_of_int (uint (data ! 7) + 256 * uint (data ! 8) - 5000) / 100 * 9 / 5 + 32)\<rparr>
                else r2)"
    by (intro parse_temperature_current) auto
  with s True r show ?thesis by auto
qed

theorem current_temperature_witness:
  "(\<exists>r. process_broodminder_manufacturer_data
          \<lparr>BLEDevice.address = ''AA:BB''\<rparr>
          (Some \<lparr>BroodminderDevice.address = ''AA:BB'', name = Some ''Hive1'', friendly_name = None\<rparr>)
          \<lparr>local_name = None, rssi = - 60, manufacturer_data = []\<rparr>
          [47, 3, 1, 0, 90, 10, 0, 137, 19, 0, 255, 127, 99, 128, 55] = Inr (Some r) \<and>
        temperature_c r = Some 0.01 \<and> temperature_f r = Some 32.018) \<and>
   (\<exists>r. process_broodminder_manufacturer_data
          \<lparr>BLEDevice.address = ''AA:BB''\<rparr>
          (Some \<lparr>BroodminderDevice.address = ''AA:BB'', name = Some ''Hive1'', friendly_name = None\<rparr>)
          \<lparr>local_name = None, rssi = - 60, manufacturer_data = []\<rparr>
          [47, 3, 1, 0, 90, 10, 0, 136, 19, 0, 255, 127, 99, 128, 55] = Inr (Some r) \<and>
        temperature_c r = None \<and> temperature_f r = None)"
  using current_temperature
    [of "[47, 3, 1, 0, 90, 10, 0, 137, 19, 0, 255, 127, 99, 128, 55]"
        "\<lparr>BLEDevice.address = ''AA:BB''\<rparr>"
        "\<lparr>BroodminderDevice.address = ''AA:BB'', name = Some ''Hive1'', friendly_name = None\<rparr>"
        "\<lparr>local_name = None, rssi = - 60, manufacturer_data = []\<rparr>"]
    current_temperature
    [of "[47, 3, 1, 0, 90, 10, 0, 136, 19, 0, 255, 127, 99, 128, 55]"
        "\<lparr>BLEDevice.address = ''AA:BB''\<rparr>"
        "\<lparr>BroodminderDevice.address = ''AA:BB'', name = Some ''Hive1'', friendly_name = None\<rparr>"
        "\<lparr>local_name = None, rssi = - 60, manufacturer_data = []\<rparr>"]
  by simp

theorem current_temperature_counterexample:
  "8 < length ([47, 3, 1, 0, 90, 10, 0, 137, 19] :: byte list) \<and>
   uint (([47, 3, 1, 0, 90, 10, 0, 137, 19] :: byte list) ! 7) + 256 * uint (([47, 3, 1, 0, 90, 10, 0, 137, 19] :: byte list) ! 8) = 5001 \<and>
   process_broodminder_manufacturer_data
     \<lparr>BLEDevice.address = ''AA:BB''\<rparr>
     (Some \<lparr>BroodminderDevice.address = ''AA:BB'', name = Some ''Hive1'', friendly_name = None\<rparr>)
     \<lparr>local_name = None, rssi = - 60, manufacturer_data = []\<rparr>
     [47, 3, 1, 0, 90, 10, 0, 137, 19] =
   Inr (Some \<lparr>address = ''AA:BB'', name = Some ''Hive1'', friendly_name = None, rssi = - 60,
              model_number = 47, model_name = ''BroodMinder-TMWC'', firmware_version = ''1.3'',
              temperature_f = None, temperature_c = None, humidity = None,
              weight_left_lbs = None, weight_right_lbs = None, total_weight_lbs = None,
              battery = None, elapsed_time = None,
              raw_data = Some [47, 3, 1, 0, 90, 10, 0, 137, 19]\<rparr>)"
  by (simp add: decoder_defs)

text \<open>
  C10 (the two temperature fields go together). In every reading the decoder returns,
  \<open>temperature_c\<close> is present exactly when \<open>temperature_f\<close> is, and then
  \<open>temperature_f = temperature_c * 9 / 5 + 32\<close>: both come from the same raw value.
\<close>

theorem temperature_fields_paired:
  assumes "process_broodminder_manufacturer_data device saved_device adv_data data = Inr (Some r)"
  shows "(temperature_c r \<noteq> None) = (temperature_f r \<noteq> None) \<and>
         temperature_f r = map_option (\<lambda>c. c * 9 / 5 + 32) (temperature_c r)"
proof -
  have len: "3 \<le> length data"
    using assms process_short [of data device saved_device adv_data] by (cases "length data < 3") auto
  then obtain sd where sd: "saved_device = Some sd"
    using assms process_no_identity [of data device adv_data] by (cases saved_device) auto
  have "temperature_f r = map_option (\<lambda>c. c * 9 / 5 + 32) (temperature_c r)"
  proof (cases "15 \<le> length data")
    case False
    with len assms sd show ?thesis using process_medium [of data device sd adv_data] by auto
  next
    case True
    with assms sd obtain r2 r3 where s:
      "temperature_f r2 = None" "temperature_c r2 = None"
      "parse_temperature (uint (data ! 0)) data r2 = Inr r3"
      "temperature_c r = temperature_c r3" "temperature_f r = temperature_f r3"
      using process_long_fields by blast
    from parse_temperature_paired [OF s(3) s(2) s(1)] s(4,5) show ?thesis by simp
  qed
  then show ?thesis by (cases "temperature_c r") simp_all
qed

theorem temperature_fields_paired_witness:
  "process_broodminder_manufacturer_data
     \<lparr>BLEDevice.address = ''AA:BB''\<rparr>
     (Some \<lparr>BroodminderDevice.address = ''AA:BB'', name = Some ''Hive1'', friendly_name = None\<rparr>)
     \<lparr>local_name = None, rssi = - 60, manufacturer_data = []\<rparr>
     [47, 3, 1, 0, 90, 10, 0, 137, 19, 0, 255, 127, 99, 128, 55] =
   Inr (Some \<lparr>address = ''AA:BB'', name = Some ''Hive1'', friendly_name = None, rssi = - 60,
              model_number = 47, model_name = ''BroodMinder-TMWC'', firmware_version = ''1.3'',
              temperature_f = (Some 32.018), temperature_c = (Some 0.01), humidity = (Some 55),
              weight_left_lbs = None, weight_right_lbs = (Some 1), total_weight_lbs = (Some 2),
              battery = (Some 90), elapsed_time = (Some 10),
              raw_data = Some [47, 3, 1, 0, 90, 10, 0, 137, 19, 0, 255, 127, 99, 128, 55]\<rparr>) \<and>
   temperature_f \<lparr>address = ''AA:BB'', name = Some ''Hive1'', friendly_name = None, rssi = - 60,
              model_number = 47, model_name = ''BroodMinder-TMWC'', firmware_version = ''1.3'',
              temperature_f = (Some 32.018), temperature_c = (Some 0.01), humidity = (Some 55),
              weight_left_lbs = None, weight_right_lbs = (Some 1), total_weight_lbs = (Some 2),
              battery = (Some 90), elapsed_time = (Some 10),
              raw_data = Some [47, 3, 1, 0, 90, 10, 0, 137, 19, 0, 255, 127, 99, 128, 55]\<rparr> =
     map_option (\<lambda>c. c * 9 / 5 + 32) (Some 0.01)"
proof -
  have e: "process_broodminder_manufacturer_data
     \<lparr>BLEDevice.address = ''AA:BB''\<rparr>
     (Some \<lparr>BroodminderDevice.address = ''AA:BB'', name = Some ''Hive1'', friendly_name = None\<rparr>)
     \<lparr>local_name = None, rssi = - 60, manufacturer_data = []\<rparr>
     [47, 3, 1, 0, 90, 10, 0, 137, 19, 0, 255, 127, 99, 128, 55] =
   Inr (Some \<lparr>address = ''AA:BB'', name = Some ''Hive1'', friendly_name = None, rssi = - 60,
              model_number = 47, model_name = ''BroodMinder-TMWC'', firmware_version = ''1.3'',
              temperature_f = (Some 32.018), temperature_c = (Some 0.01), humidity = (Some 55),
              weight_left_lbs = None, weight_right_lbs = (Some 1), total_weight_lbs = (Some 2),
              battery = (Some 90), elapsed_time = (Some 10),
              raw_data = Some [47, 3, 1, 0, 90, 10, 0, 137, 19, 0, 255, 127, 99, 128, 55]\<rparr>)"
    by (simp add: decoder_defs)
  from temperature_fields_paired [OF e] e show ?thesis by simp
qed

text \<open>
  With an identity given, the only exception that leaves the decoder is the IndexError of
  C1; so it is for \<^verbatim>\<open>callback\<close>, which always gives an identity: the stored one, or
  a fresh one when the store has none.
\<close>

lemma parse_total_weight_error:
  "parse_total_weight model data r = Inl e \<Longrightarrow> e = IndexError"
  by (auto simp add: parse_total_weight_def le16_def getitem_def bind_error_def
      split: if_splits)

lemma process_with_identity_error:
  assumes "process_broodminder_manufacturer_data device (Some sd) adv_data data = Inl e"
  shows "e = IndexError"
proof (cases "15 \<le> length data")
  case True
  then obtain r5 where
    "process_broodminder_manufacturer_data device (Some sd) adv_data data =
       bind_error (parse_total_weight (uint (data ! 0)) data r5) (\<lambda>r. Inr (Some r))"
    using process_long by blast
  with assms have "parse_total_weight (uint (data ! 0)) data r5 = Inl e"
    by (cases "parse_total_weight (uint (data ! 0)) data r5") (simp_all add: bind_error_def)
  then show ?thesis by (rule parse_total_weight_error)
next
  case False
  show ?thesis
  proof (cases "length data < 3")
    case True
    with assms show ?thesis by (simp add: process_short)
  next
    case short: False
    with False assms show ?thesis using process_medium [of data device sd adv_data] by auto
  qed
qed

lemma find_manufacturer_data_error:
  "find_manufacturer_data device (Some sd) adv_data entries = Inl e \<Longrightarrow> e = IndexError"
  by (induction entries) (auto split: if_splits dest: process_with_identity_error)

lemma callback_error:
  assumes "callback saved_devices devices_found device adv_data = Inl e"
  shows "e = IndexError"
proof -
  obtain sd where sd:
    "callback saved_devices devices_found device adv_data =
       bind_error (parse_broodminder_data device (Some sd) adv_data)
         (\<lambda>broodminder_data.
            case broodminder_data of
              None \<Rightarrow> Inr devices_found
            | Some d \<Rightarrow> Inr (ingest devices_found d))"
    by (simp add: callback_def Let_def)
  with assms have "parse_broodminder_data device (Some sd) adv_data = Inl e"
    by (cases "parse_broodminder_data device (Some sd) adv_data")
       (simp_all add: bind_error_def split: option.splits)
  then show ?thesis
    by (auto simp add: parse_broodminder_data_def split: if_splits
        dest: find_manufacturer_data_error)
qed

text \<open>
  C7 (name resolution). As stated the claim fails where it promises a successful decode
  without a known identity: \<^verbatim>\<open>saved_device.name\<close> and \<^verbatim>\<open>saved_device.friendly_name\<close>
  are read from \<^verbatim>\<open>None\<close>, and the decoder leaves with AttributeError. The scan callback
  never does that: it passes the stored identity, or a fresh one when the store has none.
  Amended: given an identity and a payload of at least 3 bytes (other than the 20-byte
  payload of a scale-capable model of C1), the decoder returns a reading whose name is the
  advertised local name when that is present and not empty, and otherwise the identity's
  name, which may itself be absent.
\<close>

theorem name_resolution:
  assumes "3 \<le> length data"
    and "\<not> (uint (data ! 0) \<in> {43, 47, 49, 56, 57, 58} \<and> length data = 20)"
  shows "\<exists>r. process_broodminder_manufacturer_data device (Some sd) adv_data data = Inr (Some r) \<and>
     name r =
       (case local_name adv_data of
          None \<Rightarrow> BroodminderDevice.name sd
        | Some n \<Rightarrow> if n = [] then BroodminderDevice.name sd else Some n)"
proof -
  from assms obtain r where
    r: "process_broodminder_manufacturer_data device (Some sd) adv_data data = Inr (Some r)"
    using decode_succeeds by blast
  have "name r = (if truthy (local_name adv_data) then local_name adv_data else BroodminderDevice.name sd)"
  proof (cases "15 \<le> length data")
    case False
    with assms(1) r show ?thesis using process_medium [of data device sd adv_data] by auto
  next
    case True
    with r show ?thesis using process_long_fields by blast
  qed
  with r show ?thesis by (auto simp add: truthy_def split: option.splits)
qed

theorem name_resolution_witness:
  "(\<exists>r. process_broodminder_manufacturer_data
          \<lparr>BLEDevice.address = ''AA:BB''\<rparr>
          (Some \<lparr>BroodminderDevice.address = ''AA:BB'', name = Some ''Hive1'', friendly_name = None\<rparr>)
          \<lparr>local_name = None, rssi = - 60, manufacturer_data = []\<rparr>
          [41, 3, 1] = Inr (Some r) \<and> name r = Some ''Hive1'') \<and>
   (\<exists>r. process_broodminder_manufacturer_data
          \<lparr>BLEDevice.address = ''AA:BB''\<rparr>
          (Some \<lparr>BroodminderDevice.address = ''AA:BB'', name = Some ''Hive1'', friendly_name = None\<rparr>)
          \<lparr>local_name = Some [], rssi = - 60, manufacturer_data = []\<rparr>
          [41, 3, 1] = Inr (Some r) \<and> name r = Some ''Hive1'') \<and>
   (\<exists>r. process_broodminder_manufacturer_data
          \<lparr>BLEDevice.address = ''AA:BB''\<rparr>
          (Some \<lparr>BroodminderDevice.address = ''AA:BB'', name = Some ''Hive1'', friendly_name = None\<rparr>)
          \<lparr>local_name = Some ''Hive2'', rssi = - 60, manufacturer_data = []\<rparr>
          [41, 3, 1] = Inr (Some r) \<and> name r = Some ''Hive2'')"
  using name_resolution
    [of "[41, 3, 1]"
        "\<lparr>BLEDevice.address = ''AA:BB''\<rparr>"
        "\<lparr>BroodminderDevice.address = ''AA:BB'', name = Some ''Hive1'', friendly_name = None\<rparr>"
        "\<lparr>local_name = None, rssi = - 60, manufacturer_data = []\<rparr>"]
    name_resolution
    [of "[41, 3, 1]"
        "\<lparr>BLEDevice.address = ''AA:BB''\<rparr>"
        "\<lparr>BroodminderDevice.address = ''AA:BB'', name = Some ''Hive1'', friendly_name = None\<rparr>"
        "\<lparr>local_name = Some [], rssi = - 60, manufacturer_data = []\<rparr>"]
    name_resolution
    [of "[41, 3, 1]"
        "\<lparr>BLEDevice.address = ''AA:BB''\<rparr>"
        "\<lparr>BroodminderDevice.address = ''AA:BB'', name = Some ''Hive1'', friendly_name = None\<rparr>"
        "\<lparr>local_name = Some ''Hive2'', rssi = - 60, manufacturer_data = []\<rparr>"]
  by simp

theorem name_resolution_counterexample:
  "process_broodminder_manufacturer_data
     \<lparr>BLEDevice.address = ''AA:BB''\<rparr>
     None
     \<lparr>local_name = None, rssi = - 60, manufacturer_data = []\<rparr>
     [41, 3, 1] = Inl AttributeError"
  by (simp add: decoder_defs)

text \<open>
  C4 (the total-weight bytes win, for every scale-capable payload longer than 19 bytes
  whose bytes 19-20 are not the sentinel). As stated the claim fails at length 20: such a
  payload has byte 19 but no byte 20, and the decoder leaves with the IndexError of C1
  instead of returning a total. With byte 19 equal to 0 the value of bytes 19-20 is a
  multiple of 256, hence not \<open>0x7FFF\<close>, whatever is taken for the missing byte.
  Amended: given an identity, for a scale-capable model and a payload longer than 20
  bytes (bytes 19 and 20 are both there) whose little-endian value of bytes 19-20 is not
  \<open>0x7FFF\<close>, the decoder returns a reading whose \<open>total_weight_lbs\<close> is
  \<open>(totalWeightRaw - 32767) / 100 * SCALE_FACTOR\<close>, whatever bytes 10-13 gave before.
\<close>

theorem total_weight_override:
  assumes "uint (data ! 0) \<in> {43, 47, 49, 56, 57, 58}"
    and "20 < length data"
    and "uint (data ! 19) + 256 * uint (data ! 20) \<noteq> 0x7FFF"
  shows "\<exists>r. process_broodminder_manufacturer_data device (Some sd) adv_data data = Inr (Some r) \<and>
     total_weight_lbs r =
       Some (real_of_int (uint (data ! 19) + 256 * uint (data ! 20) - 32767) / 100 * SCALE_FACTOR)"
proof -
  from assms(2) have "3 \<le> length data" "15 \<le> length data" "length data \<noteq> 20" by simp_all
  then obtain r where
    r: "process_broodminder_manufacturer_data device (Some sd) adv_data data = Inr (Some r)"
    using decode_succeeds [of data device sd adv_data] by auto
  with \<open>15 \<le> length data\<close> obtain r5 where "parse_total_weight (uint (data ! 0)) data r5 = Inr r"
    using process_long_fields by blast
  moreover from assms have "parse_total_weight (uint (data ! 0)) data r5 =
           Inr (if uint (data ! 19) + 256 * uint (data ! 20) \<noteq> 0x7FFF
                then r5\<lparr>total_weight_lbs :=
                         Some (real_of_int (uint (data ! 19) + 256 * uint (data ! 20) - 32767) / 100 * SCALE_FACTOR)\<rparr>
                else r5)"
    by (intro parse_total_weight_present) auto
  ultimately show ?thesis using r assms(3) by auto
qed

theorem total_weight_override_witness:
  "uint (([43, 3, 1, 0, 90, 10, 0, 0, 0, 0, 16, 128, 32, 128, 55, 0, 0, 0, 0, 99, 128] :: byte list) ! 19) +
     256 * uint (([43, 3, 1, 0, 90, 10, 0, 0, 0, 0, 16, 128, 32, 128, 55, 0, 0, 0, 0, 99, 128] :: byte list) ! 20) = 32867 \<and>
   (\<exists>r. process_broodminder_manufacturer_data
          \<lparr>BLEDevice.address = ''AA:BB''\<rparr>
          (Some \<lparr>BroodminderDevice.address = ''AA:BB'', name = Some ''Hive1'', friendly_name = None\<rparr>)
          \<lparr>local_name = None, rssi = - 60, manufacturer_data = []\<rparr>
          [43, 3, 1, 0, 90, 10, 0, 0, 0, 0, 16, 128, 32, 128, 55, 0, 0, 0, 0, 99, 128] = Inr (Some r) \<and>
        total_weight_lbs r = Some 2)"
  using total_weight_override
    [of "[43, 3, 1, 0, 90, 10, 0, 0, 0, 0, 16, 128, 32, 128, 55, 0, 0, 0, 0, 99, 128]"
        "\<lparr>BLEDevice.address = ''AA:BB''\<rparr>"
        "\<lparr>BroodminderDevice.address = ''AA:BB'', name = Some ''Hive1'', friendly_name = None\<rparr>"
        "\<lparr>local_name = None, rssi = - 60, manufacturer_data = []\<rparr>"]
  by (simp add: SCALE_FACTOR_def)

theorem total_weight_override_counterexample:
  "uint (([43, 3, 1, 0, 90, 10, 0, 0, 0, 0, 16, 128, 32, 128, 55, 0, 0, 0, 0, 0] :: byte list) ! 0)
     \<in> {43, 47, 49, 56, 57, 58} \<and>
   19 < length ([43, 3, 1, 0, 90, 10, 0, 0, 0, 0, 16, 128, 32, 128, 55, 0, 0, 0, 0, 0] :: byte list) \<and>
   uint (([43, 3, 1, 0, 90, 10, 0, 0, 0, 0, 16, 128, 32, 128, 55, 0, 0, 0, 0, 0] :: byte list) ! 19) +
     256 * uint (([43, 3, 1, 0, 90, 10, 0, 0, 0, 0, 16, 128, 32, 128, 55, 0, 0, 0, 0, 0] :: byte list) ! 20)
     \<noteq> 0x7FFF \<and>
   process_broodminder_manufacturer_data
     \<lparr>BLEDevice.address = ''AA:BB''\<rparr>
     (Some \<lparr>BroodminderDevice.address = ''AA:BB'', name = Some ''Hive1'', friendly_name = None\<rparr>)
     \<lparr>local_name = None, rssi = - 60, manufacturer_data = []\<rparr>
     [43, 3, 1, 0, 90, 10, 0, 0, 0, 0, 16, 128, 32, 128, 55, 0, 0, 0, 0, 0] = Inl IndexError"
proof -
  have "256 * (k :: int) \<noteq> 32767" for k by presburger
  then show ?thesis by (simp add: decoder_defs)
qed

text \<open>
  C5 (left side at the sentinel, right side valid). As stated the claim fails on a
  payload of exactly 14 bytes: it has bytes 10-13, but the decoder reads no field of a
  payload shorter than 15 bytes. Amended: given an identity, for a scale-capable model
  and a payload of at least 15 bytes (other than the 20-byte payload of C1) whose bytes
  10-11 are \<open>0x7FFF\<close> and whose bytes 12-13 are not, the decoder returns a reading without \<open>weight_left_lbs\<close>,
  with \<open>weight_right_lbs = (weightRightRaw - 32767) / 100\<close>, and with the total derived
  from the right side alone, \<open>weight_right_lbs * SCALE_FACTOR\<close>, unless bytes 19-20 are
  present and not the sentinel and replace it.
\<close>

theorem left_sentinel_right_only:
  assumes "uint (data ! 0) \<in> {43, 47, 49, 56, 57, 58}"
    and "15 \<le> length data"
    and "length data \<noteq> 20"
    and "uint (data ! 10) + 256 * uint (data ! 11) = 0x7FFF"
    and "uint (data ! 12) + 256 * uint (data ! 13) \<noteq> 0x7FFF"
  shows "\<exists>r. process_broodminder_manufacturer_data device (Some sd) adv_data data = Inr (Some r) \<and>
     weight_left_lbs r = None \<and>
     weight_right_lbs r = Some (real_of_int (uint (data ! 12) + 256 * uint (data ! 13) - 32767) / 100) \<and>
     total_weight_lbs r =
       (if 20 < length data \<and> uint (data ! 19) + 256 * uint (data ! 20) \<noteq> 0x7FFF
        then Some (real_of_int (uint (data ! 19) + 256 * uint (data ! 20) - 32767) / 100 * SCALE_FACTOR)
        else Some (real_of_int (uint (data ! 12) + 256 * uint (data ! 13) - 32767) / 100 * SCALE_FACTOR))"
proof -
  from assms(2,3) obtain r where
    r: "process_broodminder_manufacturer_data device (Some sd) adv_data data = Inr (Some r)"
    using decode_succeeds [of data device sd adv_data] by auto
  with assms(2) obtain r4 r5 where s:
    "weight_left_lbs r4 = None" "parse_weight (uint (data ! 0)) data r4 = Inr r5"
    "parse_total_weight (uint (data ! 0)) data r5 = Inr r"
    "weight_left_lbs r = weight_left_lbs r5" "weight_right_lbs r = weight_right_lbs r5"
    using process_long_fields by blast
  from assms s(1) have "parse_weight (uint (data ! 0)) data r4 =
           Inr (r4\<lparr>weight_right_lbs :=
                    Some (real_of_int (uint (data ! 12) + 256 * uint (data ! 13) - 32767) / 100),
                  total_weight_lbs :=
                    Some (real_of_int (uint (data ! 12) + 256 * uint (data ! 13) - 32767) / 100 * SCALE_FACTOR)\<rparr>)"
    by (intro parse_weight_right_only) auto
  with s(1,2) have r5:
    "weight_left_lbs r5 = None"
    "weight_right_lbs r5 = Some (real_of_int (uint (data ! 12) + 256 * uint (data ! 13) - 32767) / 100)"
    "total_weight_lbs r5 = Some (real_of_int (uint (data ! 12) + 256 * uint (data ! 13) - 32767) / 100 * SCALE_FACTOR)"
    by auto
  have "total_weight_lbs r =
       (if 20 < length data \<and> uint (data ! 19) + 256 * uint (data ! 20) \<noteq> 0x7FFF
        then Some (real_of_int (uint (data ! 19) + 256 * uint (data ! 20) - 32767) / 100 * SCALE_FACTOR)
        else Some (real_of_int (uint (data ! 12) + 256 * uint (data ! 13) - 32767) / 100 * SCALE_FACTOR))"
  proof (cases "20 < length data")
    case True
    with assms(1) have "parse_total_weight (uint (data ! 0)) data r5 =
           Inr (if uint (data ! 19) + 256 * uint (data ! 20) \<noteq> 0x7FFF
                then r5\<lparr>total_weight_lbs :=
                         Some (real_of_int (uint (data ! 19) + 256 * uint (data ! 20) - 32767) / 100 * SCALE_FACTOR)\<rparr>
                else r5)"
      by (intro parse_total_weight_present) auto
    with s(3) r5(3) True show ?thesis by auto
  next
    case False
    with assms(3) have "length data \<le> 19" by simp
    then have "parse_total_weight (uint (data ! 0)) data r5 = Inr r5"
      by (intro parse_total_weight_skipped) simp
    with s(3) r5(3) False show ?thesis by simp
  qed
  with r s(4,5) r5(1,2) show ?thesis by simp
qed

theorem left_sentinel_right_only_witness:
  "\<exists>r. process_broodminder_manufacturer_data
         \<lparr>BLEDevice.address = ''AA:BB''\<rparr>
         (Some \<lparr>BroodminderDevice.address = ''AA:BB'', name = Some ''Hive1'', friendly_name = None\<rparr>)
         \<lparr>local_name = None, rssi = - 60, manufacturer_data = []\<rparr>
         [43, 3, 1, 0, 90, 10, 0, 0, 0, 0, 255, 127, 99, 128, 55] = Inr (Some r) \<and>
       weight_left_lbs r = None \<and> weight_right_lbs r = Some 1 \<and> total_weight_lbs r = Some 2"
  using left_sentinel_right_only
    [of "[43, 3, 1, 0, 90, 10, 0, 0, 0, 0, 255, 127, 99, 128, 55]"
        "\<lparr>BLEDevice.address = ''AA:BB''\<rparr>"
        "\<lparr>BroodminderDevice.address = ''AA:BB'', name = Some ''Hive1'', friendly_name = None\<rparr>"
        "\<lparr>local_name = None, rssi = - 60, manufacturer_data = []\<rparr>"]
  by (simp add: SCALE_FACTOR_def)

theorem left_sentinel_right_only_counterexample:
  "uint (([43, 3, 1, 0, 90, 10, 0, 0, 0, 0, 255, 127, 99, 128] :: byte list) ! 10) +
     256 * uint (([43, 3, 1, 0, 90, 10, 0, 0, 0, 0, 255, 127, 99, 128] :: byte list) ! 11) = 0x7FFF \<and>
   uint (([43, 3, 1, 0, 90, 10, 0, 0, 0, 0, 255, 127, 99, 128] :: byte list) ! 12) +
     256 * uint (([43, 3, 1, 0, 90, 10, 0, 0, 0, 0, 255, 127, 99, 128] :: byte list) ! 13) = 32867 \<and>
   process_broodminder_manufacturer_data
     \<lparr>BLEDevice.address = ''AA:BB''\<rparr>
     (Some \<lparr>BroodminderDevice.address = ''AA:BB'', name = Some ''Hive1'', friendly_name = None\<rparr>)
     \<lparr>local_name = None, rssi = - 60, manufacturer_data = []\<rparr>
     [43, 3, 1, 0, 90, 10, 0, 0, 0, 0, 255, 127, 99, 128] =
   Inr (Some \<lparr>address = ''AA:BB'', name = Some ''Hive1'', friendly_name = None, rssi = - 60,
              model_number = 43, model_name = ''BroodMinder-W'', firmware_version = ''1.3'',
              temperature_f = None, temperature_c = None, humidity = None,
              weight_left_lbs = None, weight_right_lbs = None, total_weight_lbs = None,
              battery = None, elapsed_time = None,
              raw_data = Some [43, 3, 1, 0, 90, 10, 0, 0, 0, 0, 255, 127, 99, 128]\<rparr>)"
  by (simp add: decoder_defs)

section \<open>Claims about the session aggregator\<close>

text \<open>
  On a list whose addresses are distinct, \<open>ingest\<close> drops the entry of the new reading's
  address and appends the new reading. Starting from the empty list the addresses stay
  distinct, and what is left after a sequence of readings are the readings that are the
  last of their address, in the order of their arrival.
\<close>

lemma remove_first_by_key:
  assumes "distinct (map f xs)"
  shows "(case find (\<lambda>e. f e = a) xs of None \<Rightarrow> xs | Some e \<Rightarrow> remove1 e xs) =
         filter (\<lambda>e. f e \<noteq> a) xs"
  using assms
proof (induction xs)
  case Nil
  then show ?case by simp
next
  case (Cons x xs)
  show ?case
  proof (cases "f x = a")
    case True
    with Cons.prems have "\<forall>e \<in> set xs. f e \<noteq> a" by (auto simp add: image_iff)
    then have "filter (\<lambda>e. f e \<noteq> a) xs = xs" by (simp add: filter_id_conv)
    with True show ?thesis by simp
  next
    case False
    from Cons.prems have d: "distinct (map f xs)" by simp
    show ?thesis
    proof (cases "find (\<lambda>e. f e = a) xs")
      case None
      with False Cons.IH [OF d] show ?thesis by simp
    next
      case (Some e)
      then have "f e = a" by (auto simp add: find_Some_iff)
      with False have "x \<noteq> e" by auto
      with False Some Cons.IH [OF d] show ?thesis by simp
    qed
  qed
qed

lemma ingest_filter:
  "distinct (map address xs) \<Longrightarrow> ingest xs r = filter (\<lambda>e. address e \<noteq> address r) xs @ [r]"
  by (simp add: ingest_def remove_first_by_key)

lemma distinct_ingest:
  assumes "distinct (map address xs)"
  shows "distinct (map address (ingest xs r))"
proof -
  have "distinct (map address (filter (\<lambda>e. address e \<noteq> address r) xs))"
    using assms by (simp add: distinct_map_filter)
  then show ?thesis using assms by (auto simp add: ingest_filter)
qed

lemma foldl_ingest:
  assumes "distinct (map address xs)"
  shows "foldl ingest xs rs =
           filter (\<lambda>e. address e \<notin> set (map address rs)) xs @ latest_readings rs"
  using assms
proof (induction rs arbitrary: xs)
  case Nil
  then show ?case by simp
next
  case (Cons r rs)
  have "foldl ingest (ingest xs r) rs =
          filter (\<lambda>e. address e \<notin> set (map address rs)) (ingest xs r) @ latest_readings rs"
    using Cons.IH [OF distinct_ingest [OF Cons.prems]] .
  then show ?case using Cons.prems
    by (auto simp add: ingest_filter intro: filter_cong)
qed

lemma ingest_all_latest: "ingest_all rs = latest_readings rs"
  using foldl_ingest [of "[]" rs] by (simp add: ingest_all_def)

lemma address_latest_readings: "map address (latest_readings rs) = remdups (map address rs)"
  by (induction rs) auto

lemma find_append_cases:
  "find P (xs @ ys) = (case find P xs of None \<Rightarrow> find P ys | Some x \<Rightarrow> Some x)"
  by (induction xs) auto

lemma latest_readings_most_recent:
  "e \<in> set (latest_readings rs) \<Longrightarrow> find (\<lambda>r. address r = address e) (rev rs) = Some e"
proof (induction rs)
  case Nil
  then show ?case by simp
next
  case (Cons r rs)
  show ?case
  proof (cases "e \<in> set (latest_readings rs)")
    case True
    with Cons.IH show ?thesis by (simp add: find_append_cases)
  next
    case False
    with Cons.prems have e: "e = r" "address r \<notin> set (map address rs)"
      by (auto split: if_splits)
    then have "find (\<lambda>x. address x = address r) (rev rs) = None"
      by (auto simp add: find_None_iff image_iff)
    with e show ?thesis by (simp add: find_append_cases)
  qed
qed

text \<open>
  C2 (one entry per address, the latest reading, ordered by first sighting). The first
  two parts hold; the ordering does not: a reading for a known address is removed from
  its place and appended at the end, so the entries are ordered by the last sighting of
  each address. Amended: the snapshot holds exactly one entry per distinct address, the
  most recently ingested reading of that address, and the entries are in the order in
  which these latest readings arrived (\<open>remdups\<close> keeps the last occurrence of each
  address); in particular, ingesting two readings for the same address in sequence
  leaves exactly one entry for that address, equal to the second reading, at the end of
  the list.
\<close>

theorem snapshot_by_last_sighting:
  "ingest_all readings = latest_readings readings \<and>
   distinct (map address (ingest_all readings)) \<and>
   set (map address (ingest_all readings)) = set (map address readings) \<and>
   map address (ingest_all readings) = remdups (map address readings) \<and>
   (\<forall>e \<in> set (ingest_all readings).
      find (\<lambda>r. address r = address e) (rev readings) = Some e) \<and>
   (address r1 = address r2 \<longrightarrow>
      ingest_all (readings @ [r1, r2]) =
        filter (\<lambda>e. address e \<noteq> address r2) (ingest_all readings) @ [r2])"
proof -
  have d: "distinct (map address (ingest_all readings))"
    by (simp add: ingest_all_latest address_latest_readings)
  have "ingest_all (readings @ [r1, r2]) = ingest (ingest (ingest_all readings) r1) r2"
    by (simp add: ingest_all_def)
  also have "\<dots> = filter (\<lambda>e. address e \<noteq> address r2)
                    (filter (\<lambda>e. address e \<noteq> address r1) (ingest_all readings) @ [r1]) @ [r2]"
    using d distinct_ingest [OF d, of r1] by (simp add: ingest_filter)
  finally have "address r1 = address r2 \<longrightarrow>
      ingest_all (readings @ [r1, r2]) =
        filter (\<lambda>e. address e \<noteq> address r2) (ingest_all readings) @ [r2]"
    by simp
  moreover have "set (map address (ingest_all readings)) = set (map address readings)"
    by (simp add: ingest_all_latest address_latest_readings del: set_map)
  ultimately show ?thesis using d
    by (simp add: ingest_all_latest address_latest_readings latest_readings_most_recent)
qed

theorem snapshot_by_last_sighting_witness:
  "ingest_all [example_reading ''AA'' None 1, example_reading ''BB'' None 2, example_reading ''AA'' None 3] =
     [example_reading ''BB'' None 2, example_reading ''AA'' None 3] \<and>
   find (\<lambda>r. address r = ''AA'')
     (rev [example_reading ''AA'' None 1, example_reading ''BB'' None 2, example_reading ''AA'' None 3]) =
     Some (example_reading ''AA'' None 3) \<and>
   ingest_all ([example_reading ''AA'' None 1, example_reading ''BB'' None 2] @
               [example_reading ''AA'' None 3, example_reading ''AA'' None 4]) =
     [example_reading ''BB'' None 2, example_reading ''AA'' None 4]"
  using snapshot_by_last_sighting
    [of "[example_reading ''AA'' None 1, example_reading ''BB'' None 2, example_reading ''AA'' None 3]"]
    snapshot_by_last_sighting
    [of "[example_reading ''AA'' None 1, example_reading ''BB'' None 2]"
        "example_reading ''AA'' None 3" "example_reading ''AA'' None 4"]
  by (simp add: example_reading_def)

theorem snapshot_by_first_sighting_counterexample:
  "ingest_all [example_reading ''AA'' None 1, example_reading ''BB'' None 2, example_reading ''AA'' None 3] =
     [example_reading ''BB'' None 2, example_reading ''AA'' None 3] \<and>
   snapshot_by_first_sighting [example_reading ''AA'' None 1, example_reading ''BB'' None 2, example_reading ''AA'' None 3] =
     [example_reading ''AA'' None 3, example_reading ''BB'' None 2] \<and>
   ingest_all [example_reading ''AA'' None 1, example_reading ''BB'' None 2, example_reading ''AA'' None 3] \<noteq>
   snapshot_by_first_sighting [example_reading ''AA'' None 1, example_reading ''BB'' None 2, example_reading ''AA'' None 3]"
  by (simp add: ingest_all_def ingest_def snapshot_by_first_sighting_def example_reading_def
      List.map_filter_def)

section \<open>Claims about the identity store\<close>

text \<open>
  The name that \<open>last_name\<close> computes changes only at a reading of that address with a
  name; \<open>save_devices\<close> is then described address by address.
\<close>

lemma last_name_Nil: "last_name a [] = None"
  by (simp add: last_name_def)

lemma last_name_snoc:
  "last_name a (ds @ [d]) = (if address d = a \<and> name d \<noteq> None then name d else last_name a ds)"
  by (auto simp add: last_name_def split: list.splits)

lemma last_name_None:
  "a \<notin> set (map address ds) \<Longrightarrow> last_name a ds = None"
  by (induction ds rule: rev_induct) (auto simp add: last_name_Nil last_name_snoc)

lemma save_devices_snoc:
  "save_devices saved (ds @ [d]) = save_device (save_devices saved ds) d"
  by (simp add: save_devices_def)

lemma save_device_at:
  "save_device saved d a =
     (if a = address d
      then Some (case name d of
                   None \<Rightarrow>
                     (case saved a of
                        None \<Rightarrow> \<lparr>BroodminderDevice.address = a, name = None, friendly_name = None\<rparr>
                      | Some sd \<Rightarrow> sd)
                 | Some n \<Rightarrow>
                     (case saved a of
                        None \<Rightarrow> \<lparr>BroodminderDevice.address = a, name = Some n, friendly_name = None\<rparr>
                      | Some sd \<Rightarrow> sd\<lparr>BroodminderDevice.name := Some n\<rparr>))
      else saved a)"
  by (cases "name d"; cases "saved (address d)") (auto simp add: save_device_def)

lemma save_devices_at:
  "save_devices saved found a =
     (case saved a of
        None \<Rightarrow>
          if a \<in> set (map address found)
          then Some \<lparr>BroodminderDevice.address = a, name = last_name a found, friendly_name = None\<rparr>
          else None
      | Some sd \<Rightarrow>
          Some (sd\<lparr>BroodminderDevice.name :=
                     (case last_name a found of None \<Rightarrow> BroodminderDevice.name sd | Some n \<Rightarrow> Some n)\<rparr>))"
proof (induction found rule: rev_induct)
  case Nil
  then show ?case by (simp add: save_devices_def last_name_Nil split: option.splits)
next
  case (snoc d ds)
  show ?case
  proof (cases "address d = a")
    case False
    then have "save_devices saved (ds @ [d]) a = save_devices saved ds a"
      by (simp add: save_devices_snoc save_device_at)
    with False snoc.IH show ?thesis
      by (simp add: last_name_snoc split: option.splits)
  next
    case True
    show ?thesis
    proof (cases "a \<in> set (map address ds)")
      case seen: True
      with True snoc.IH show ?thesis
        by (cases "name d"; cases "saved a")
           (simp_all add: save_devices_snoc save_device_at last_name_snoc)
    next
      case unseen: False
      with True snoc.IH show ?thesis
        by (cases "name d"; cases "saved a")
           (simp_all add: save_devices_snoc save_device_at last_name_snoc last_name_None)
    qed
  qed
qed

text \<open>
  C9 (reconciliation). For every store and every list of readings, \<^verbatim>\<open>save_devices\<close>
  keeps every stored address and adds a fresh identity for each address it had not seen;
  the identity of an address gets the name of the last reading of that address whose
  name is not \<^verbatim>\<open>None\<close>, and keeps its stored name (\<^verbatim>\<open>None\<close> for a fresh identity) when
  there is no such reading, so a stored name is never replaced by \<^verbatim>\<open>None\<close>; and
  \<open>friendly_name\<close> is what the store held before, \<^verbatim>\<open>None\<close> for a fresh identity.
\<close>

theorem save_devices_reconciles:
  "dom (save_devices saved found) = dom saved \<union> set (map address found) \<and>
   (\<forall>a. save_devices saved found a =
     (case saved a of
        None \<Rightarrow>
          if a \<in> set (map address found)
          then Some \<lparr>BroodminderDevice.address = a, name = last_name a found, friendly_name = None\<rparr>
          else None
      | Some sd \<Rightarrow>
          Some (sd\<lparr>BroodminderDevice.name :=
                     (case last_name a found of None \<Rightarrow> BroodminderDevice.name sd | Some n \<Rightarrow> Some n)\<rparr>))) \<and>
   (\<forall>a sd'. save_devices saved found a = Some sd' \<longrightarrow>
      BroodminderDevice.friendly_name sd' =
        (case saved a of None \<Rightarrow> None | Some sd \<Rightarrow> BroodminderDevice.friendly_name sd) \<and>
      (BroodminderDevice.name sd' = None \<longrightarrow>
         (case saved a of None \<Rightarrow> True | Some sd \<Rightarrow> BroodminderDevice.name sd = None)))"
proof -
  have "dom (save_devices saved found) = dom saved \<union> set (map address found)"
    by (auto simp add: dom_def save_devices_at split: option.splits if_splits)
  moreover have "\<forall>a sd'. save_devices saved found a = Some sd' \<longrightarrow>
      BroodminderDevice.friendly_name sd' =
        (case saved a of None \<Rightarrow> None | Some sd \<Rightarrow> BroodminderDevice.friendly_name sd) \<and>
      (BroodminderDevice.name sd' = None \<longrightarrow>
         (case saved a of None \<Rightarrow> True | Some sd \<Rightarrow> BroodminderDevice.name sd = None))"
    by (auto simp add: save_devices_at split: option.splits if_splits)
  ultimately show ?thesis using save_devices_at by blast
qed

theorem save_devices_reconciles_witness:
  "save_devices [''AA:BB'' \<mapsto> \<lparr>BroodminderDevice.address = ''AA:BB'', name = Some ''Old'', friendly_name = Some ''Garden''\<rparr>]
     [example_reading ''AA:BB'' None 1, example_reading ''CC:DD'' (Some ''Hive1'') 2, example_reading ''CC:DD'' None 3]
     ''AA:BB'' =
     Some \<lparr>BroodminderDevice.address = ''AA:BB'', name = Some ''Old'', friendly_name = Some ''Garden''\<rparr> \<and>
   save_devices [''AA:BB'' \<mapsto> \<lparr>BroodminderDevice.address = ''AA:BB'', name = Some ''Old'', friendly_name = Some ''Garden''\<rparr>]
     [example_reading ''AA:BB'' None 1, example_reading ''CC:DD'' (Some ''Hive1'') 2, example_reading ''CC:DD'' None 3]
     ''CC:DD'' =
     Some \<lparr>BroodminderDevice.address = ''CC:DD'', name = Some ''Hive1'', friendly_name = None\<rparr> \<and>
   dom (save_devices [''AA:BB'' \<mapsto> \<lparr>BroodminderDevice.address = ''AA:BB'', name = Some ''Old'', friendly_name = Some ''Garden''\<rparr>]
     [example_reading ''AA:BB'' None 1, example_reading ''CC:DD'' (Some ''Hive1'') 2, example_reading ''CC:DD'' None 3]) =
     {''AA:BB'', ''CC:DD''}"
  using save_devices_reconciles
    [of "[''AA:BB'' \<mapsto> \<lparr>BroodminderDevice.address = ''AA:BB'', name = Some ''Old'', friendly_name = Some ''Garden''\<rparr>]"
        "[example_reading ''AA:BB'' None 1, example_reading ''CC:DD'' (Some ''Hive1'') 2, example_reading ''CC:DD'' None 3]"]
  by (auto simp add: last_name_def example_reading_def)

text \<open>
  What \<^verbatim>\<open>load_saved_devices\<close> does tolerate: a missing file, a file that is not JSON,
  and an entry that is not a well-formed identity record. A file that \<^verbatim>\<open>json.load\<close>
  cannot read as text is not tolerated: UnicodeDecodeError is not among the exceptions
  the \<^verbatim>\<open>except\<close> clause names.
\<close>

lemma load_absent: "load_saved_devices None = Inr []"
  by (simp add: load_saved_devices_def)

lemma load_not_json: "load_saved_devices (Some (Inl JSONDecodeError)) = Inr []"
  by (simp add: load_saved_devices_def bind_error_def)

lemma load_undecodable:
  "load_saved_devices (Some (Inl UnicodeDecodeError)) = Inl UnicodeDecodeError"
  by (simp add: load_saved_devices_def bind_error_def)

lemma load_malformed_record:
  "load_saved_devices
     (Some (Inr (JObj [(''AA:BB'', JObj [(''address'', JStr ''AA:BB''), (''nam'', JNull)])]))) =
   Inr []"
  by (simp add: load_saved_devices_def bind_error_def items_def BroodminderDevice_init_def)

lemma load_well_formed:
  "load_saved_devices
     (Some (Inr (JObj [(''AA:BB'', JObj [(''address'', JStr ''AA:BB''), (''name'', JNull),
                                         (''friendly_name'', JStr ''Garden'')])]))) =
   Inr [(''AA:BB'', \<lparr>LoadedDevice.address = JStr ''AA:BB'', name = JNull,
                      friendly_name = JStr ''Garden''\<rparr>)]"
  by (simp add: load_saved_devices_def bind_error_def items_def BroodminderDevice_init_def)

text \<open>
  C8 (a malformed identity file loads as an empty mapping, never a crash). The code does
  crash: when the file is valid JSON whose top-level value is not an object (a list, a
  string, a number, \<^verbatim>\<open>null\<close>), \<^verbatim>\<open>data.items()\<close> raises AttributeError, which the
  \<^verbatim>\<open>except (json.JSONDecodeError, TypeError)\<close> clause does not name.
\<close>

theorem load_raises_on_non_mapping:
  assumes "\<forall>kvs. data \<noteq> JObj kvs"
  shows "load_saved_devices (Some (Inr data)) = Inl AttributeError"
  using assms by (cases data) (simp_all add: load_saved_devices_def bind_error_def items_def)

theorem load_raises_on_non_mapping_witness:
  "load_saved_devices (Some (Inr (JArr []))) = Inl AttributeError"
  using load_raises_on_non_mapping [of "JArr []"] by simp

end
